theory Spec2Isabelle
  imports Main
begin

section \<open>Values shared by the writer and the middleware\<close>

text \<open>
  Go byte slices and strings are lists of 8-bit characters. A Go \<open>error\<close> is an opaque
  value carrying a message; \<open>nil\<close> is \<open>None\<close> of \<open>error option\<close>.
\<close>

type_synonym bytes = string

datatype error = Error string

fun errorMessage :: "error \<Rightarrow> string" where
  "errorMessage (Error m) = m"

text \<open>\<open>types.Interruption\<close> of the inspection engine.\<close>

record Interruption =
  RuleID :: int
  Action :: string
  Status :: int
  Data :: string

definition StatusOK :: int where
  "StatusOK = 200"

definition StatusInternalServerError :: int where
  "StatusInternalServerError = 500"

text \<open>\<open>obtainStatusCodeFromInterruptionOrDefault\<close> (coraza.go).\<close>

definition obtainStatusCodeFromInterruptionOrDefault :: "Interruption \<Rightarrow> int \<Rightarrow> int" where
  "obtainStatusCodeFromInterruptionOrDefault it defaultStatusCode =
     (if Action it = ''deny''
      then (if Status it = 0 then 403 else Status it)
      else defaultStatusCode)"

section \<open>The header map of \<open>net/http\<close>\<close>

text \<open>
  \<open>http.Header\<close> is \<open>map[string][]string\<close>. It is kept as an association list with
  one entry per key; the order of the entries stands for the order in which this run of
  the program happens to range over the map.

  The methods \<open>Set\<close>, \<open>Add\<close> and \<open>Del\<close> of \<open>http.Header\<close> work on
  \<open>textproto.CanonicalMIMEHeaderKey\<close> of the key they are given; an assignment to the
  map itself (\<open>h[k] = vs\<close>) stores the key as written. The canonical form of a key made of
  header token bytes has its first letter and every letter after a hyphen in upper case and
  all other letters in lower case; a key with any other byte is left as it is.
\<close>

type_synonym header = "(string \<times> string list) list"

definition lowerAlpha :: string where
  "lowerAlpha = ''abcdefghijklmnopqrstuvwxyz''"

definition upperAlpha :: string where
  "upperAlpha = ''ABCDEFGHIJKLMNOPQRSTUVWXYZ''"

definition digitChars :: string where
  "digitChars = ''0123456789''"

definition tokenPunct :: string where
  "tokenPunct = [CHR ''!'', CHR ''#'', CHR ''$'', CHR ''%'', CHR ''&'', CHR 0x27, CHR ''*'',
                 CHR ''+'', CHR ''-'', CHR ''.'', CHR ''^'', CHR ''_'', CHR 0x60, CHR ''|'',
                 CHR ''~'']"

definition validHeaderFieldByte :: "char \<Rightarrow> bool" where
  "validHeaderFieldByte c =
     (c \<in> set lowerAlpha \<or> c \<in> set upperAlpha \<or> c \<in> set digitChars \<or> c \<in> set tokenPunct)"

definition toUpperB :: "char \<Rightarrow> char" where
  "toUpperB c = (case map_of (zip lowerAlpha upperAlpha) c of Some u \<Rightarrow> u | None \<Rightarrow> c)"

definition toLowerB :: "char \<Rightarrow> char" where
  "toLowerB c = (case map_of (zip upperAlpha lowerAlpha) c of Some u \<Rightarrow> u | None \<Rightarrow> c)"

definition canonByte :: "bool \<Rightarrow> char \<Rightarrow> char" where
  "canonByte upper c =
     (if upper \<and> c \<in> set lowerAlpha then toUpperB c
      else if \<not> upper \<and> c \<in> set upperAlpha then toLowerB c
      else c)"

fun canonLoop :: "bool \<Rightarrow> string \<Rightarrow> string" where
  "canonLoop upper [] = []"
| "canonLoop upper (c # cs) =
     canonByte upper c # canonLoop (canonByte upper c = CHR ''-'') cs"

definition CanonicalMIMEHeaderKey :: "string \<Rightarrow> string" where
  "CanonicalMIMEHeaderKey s =
     (if list_all validHeaderFieldByte s then canonLoop True s else s)"

definition headerKeys :: "header \<Rightarrow> string list" where
  "headerKeys h = map fst h"

definition headerGet :: "header \<Rightarrow> string \<Rightarrow> string list" where
  "headerGet h k = (case map_of h k of Some vs \<Rightarrow> vs | None \<Rightarrow> [])"

definition headerDelete :: "string \<Rightarrow> header \<Rightarrow> header" where
  "headerDelete k h = filter (\<lambda>kv. fst kv \<noteq> k) h"

text \<open>\<open>h[k] = vs\<close>: an existing entry is replaced, a new key gets a new entry.\<close>

definition headerAssign :: "string \<Rightarrow> string list \<Rightarrow> header \<Rightarrow> header" where
  "headerAssign k vs h =
     (if k \<in> set (headerKeys h)
      then map (\<lambda>kv. if fst kv = k then (k, vs) else kv) h
      else h @ [(k, vs)])"

definition headerSet :: "string \<Rightarrow> string \<Rightarrow> header \<Rightarrow> header" where
  "headerSet k v h = headerAssign (CanonicalMIMEHeaderKey k) [v] h"

definition headerAdd :: "string \<Rightarrow> string \<Rightarrow> header \<Rightarrow> header" where
  "headerAdd k v h =
     headerAssign (CanonicalMIMEHeaderKey k) (headerGet h (CanonicalMIMEHeaderKey k) @ [v]) h"

definition headerDel :: "string \<Rightarrow> header \<Rightarrow> header" where
  "headerDel k h = headerDelete (CanonicalMIMEHeaderKey k) h"

section \<open>The downstream response writer\<close>

text \<open>
  \<open>fox.ResponseWriter\<close> is the writer the interceptor decorates. It is an interface of
  another package, so it is kept as a recorder of what it is asked to do: the header map it
  stages, every status it receives through \<open>WriteHeader\<close> and every slice it receives
  through \<open>Write\<close>, in order. What a \<open>Write\<close> reports back, a byte count and an
  error, is the writer's own business: \<open>reply\<close> gives it from the slices received so
  far and the new one.
\<close>

record ResponseWriter =
  hdr :: header
  statuses :: "int list"
  written :: "bytes list"
  reply :: "bytes list \<Rightarrow> bytes \<Rightarrow> int \<times> error option"

definition downWriteHeader :: "int \<Rightarrow> ResponseWriter \<Rightarrow> ResponseWriter" where
  "downWriteHeader code d = d\<lparr>statuses := statuses d @ [code]\<rparr>"

definition downWrite :: "bytes \<Rightarrow> ResponseWriter \<Rightarrow> (int \<times> error option) \<times> ResponseWriter" where
  "downWrite b d = (reply d (written d) b, d\<lparr>written := written d @ [b]\<rparr>)"

section \<open>The inspection engine's transaction\<close>

text \<open>
  \<open>types.Transaction\<close> belongs to the inspection engine. Its behaviour is a parameter of
  every definition below: an \<open>engine\<close> gives, for each method the middleware calls, the
  result and the engine's next state, over a state type \<open>'e\<close> of the engine's choosing.
  The five predicates are read-only. A Go result \<open>(x, err)\<close> is a pair; nothing is assumed
  about which combinations an engine produces.
\<close>

datatype body = NilBody | NoBody | Stream bytes

record Request =
  RemoteAddr :: string
  URL :: string
  Method :: string
  Proto :: string
  Header :: header
  Host :: string
  TransferEncoding :: "string list"
  Body :: body

record 'e engine =
  eNewTransaction :: "Request \<Rightarrow> 'e"
  eIsRuleEngineOff :: "'e \<Rightarrow> bool"
  eIsInterrupted :: "'e \<Rightarrow> bool"
  eIsRequestBodyAccessible :: "'e \<Rightarrow> bool"
  eIsResponseBodyAccessible :: "'e \<Rightarrow> bool"
  eIsResponseBodyProcessable :: "'e \<Rightarrow> bool"
  eProcessConnection :: "string \<Rightarrow> int \<Rightarrow> string \<Rightarrow> int \<Rightarrow> 'e \<Rightarrow> unit \<times> 'e"
  eProcessURI :: "string \<Rightarrow> string \<Rightarrow> string \<Rightarrow> 'e \<Rightarrow> unit \<times> 'e"
  eAddRequestHeader :: "string \<Rightarrow> string \<Rightarrow> 'e \<Rightarrow> unit \<times> 'e"
  eSetServerName :: "string \<Rightarrow> 'e \<Rightarrow> unit \<times> 'e"
  eProcessRequestHeaders :: "'e \<Rightarrow> Interruption option \<times> 'e"
  eReadRequestBodyFrom ::
    "bytes \<Rightarrow> 'e \<Rightarrow> (Interruption option \<times> int \<times> error option \<times> bytes) \<times> 'e"
  eRequestBodyReader :: "'e \<Rightarrow> (bytes \<times> error option) \<times> 'e"
  eProcessRequestBody :: "'e \<Rightarrow> (Interruption option \<times> error option) \<times> 'e"
  eAddResponseHeader :: "string \<Rightarrow> string \<Rightarrow> 'e \<Rightarrow> unit \<times> 'e"
  eProcessResponseHeaders :: "int \<Rightarrow> string \<Rightarrow> 'e \<Rightarrow> Interruption option \<times> 'e"
  eWriteResponseBody :: "bytes \<Rightarrow> 'e \<Rightarrow> (Interruption option \<times> int \<times> error option) \<times> 'e"
  eProcessResponseBody :: "'e \<Rightarrow> (Interruption option \<times> error option) \<times> 'e"
  eResponseBodyReader :: "'e \<Rightarrow> (bytes \<times> error option) \<times> 'e"
  eProcessLogging :: "'e \<Rightarrow> unit \<times> 'e"
  eClose :: "'e \<Rightarrow> error option \<times> 'e"

text \<open>
  A transaction handle is the engine's state together with the list of the state-changing
  calls made on it, oldest first. The list is what a counting test double of the engine
  would record; it lets a theorem say which calls a path makes, with which arguments, and
  how often.
\<close>

datatype tx_call =
    CProcessConnection string int string int
  | CProcessURI string string string
  | CAddRequestHeader string string
  | CSetServerName string
  | CProcessRequestHeaders
  | CReadRequestBodyFrom bytes
  | CRequestBodyReader
  | CProcessRequestBody
  | CAddResponseHeader string string
  | CProcessResponseHeaders int string
  | CWriteResponseBody bytes
  | CProcessResponseBody
  | CResponseBodyReader
  | CProcessLogging
  | CClose

record 'e txn =
  est :: 'e
  calls :: "tx_call list"

definition invoke :: "tx_call \<Rightarrow> ('e \<Rightarrow> 'a \<times> 'e) \<Rightarrow> 'e txn \<Rightarrow> 'a \<times> 'e txn" where
  "invoke c f t = (fst (f (est t)), \<lparr>est = snd (f (est t)), calls = calls t @ [c]\<rparr>)"

definition NewTransaction :: "'e engine \<Rightarrow> Request \<Rightarrow> 'e txn" where
  "NewTransaction eng r = \<lparr>est = eNewTransaction eng r, calls = []\<rparr>"

definition IsRuleEngineOff :: "'e engine \<Rightarrow> 'e txn \<Rightarrow> bool" where
  "IsRuleEngineOff eng t = eIsRuleEngineOff eng (est t)"

definition IsInterrupted :: "'e engine \<Rightarrow> 'e txn \<Rightarrow> bool" where
  "IsInterrupted eng t = eIsInterrupted eng (est t)"

definition IsRequestBodyAccessible :: "'e engine \<Rightarrow> 'e txn \<Rightarrow> bool" where
  "IsRequestBodyAccessible eng t = eIsRequestBodyAccessible eng (est t)"

definition IsResponseBodyAccessible :: "'e engine \<Rightarrow> 'e txn \<Rightarrow> bool" where
  "IsResponseBodyAccessible eng t = eIsResponseBodyAccessible eng (est t)"

definition IsResponseBodyProcessable :: "'e engine \<Rightarrow> 'e txn \<Rightarrow> bool" where
  "IsResponseBodyProcessable eng t = eIsResponseBodyProcessable eng (est t)"

definition ProcessConnection ::
  "'e engine \<Rightarrow> string \<Rightarrow> int \<Rightarrow> string \<Rightarrow> int \<Rightarrow> 'e txn \<Rightarrow> 'e txn" where
  "ProcessConnection eng client cport server sport t =
     snd (invoke (CProcessConnection client cport server sport)
                 (eProcessConnection eng client cport server sport) t)"

definition ProcessURI :: "'e engine \<Rightarrow> string \<Rightarrow> string \<Rightarrow> string \<Rightarrow> 'e txn \<Rightarrow> 'e txn" where
  "ProcessURI eng uri method ver t =
     snd (invoke (CProcessURI uri method ver) (eProcessURI eng uri method ver) t)"

definition AddRequestHeader :: "'e engine \<Rightarrow> string \<Rightarrow> string \<Rightarrow> 'e txn \<Rightarrow> 'e txn" where
  "AddRequestHeader eng k v t = snd (invoke (CAddRequestHeader k v) (eAddRequestHeader eng k v) t)"

definition SetServerName :: "'e engine \<Rightarrow> string \<Rightarrow> 'e txn \<Rightarrow> 'e txn" where
  "SetServerName eng n t = snd (invoke (CSetServerName n) (eSetServerName eng n) t)"

definition ProcessRequestHeaders :: "'e engine \<Rightarrow> 'e txn \<Rightarrow> Interruption option \<times> 'e txn" where
  "ProcessRequestHeaders eng t = invoke CProcessRequestHeaders (eProcessRequestHeaders eng) t"

definition ReadRequestBodyFrom ::
  "'e engine \<Rightarrow> bytes \<Rightarrow> 'e txn \<Rightarrow> (Interruption option \<times> int \<times> error option \<times> bytes) \<times> 'e txn" where
  "ReadRequestBodyFrom eng b t = invoke (CReadRequestBodyFrom b) (eReadRequestBodyFrom eng b) t"

definition RequestBodyReader :: "'e engine \<Rightarrow> 'e txn \<Rightarrow> (bytes \<times> error option) \<times> 'e txn" where
  "RequestBodyReader eng t = invoke CRequestBodyReader (eRequestBodyReader eng) t"

definition ProcessRequestBody ::
  "'e engine \<Rightarrow> 'e txn \<Rightarrow> (Interruption option \<times> error option) \<times> 'e txn" where
  "ProcessRequestBody eng t = invoke CProcessRequestBody (eProcessRequestBody eng) t"

definition AddResponseHeader :: "'e engine \<Rightarrow> string \<Rightarrow> string \<Rightarrow> 'e txn \<Rightarrow> 'e txn" where
  "AddResponseHeader eng k v t =
     snd (invoke (CAddResponseHeader k v) (eAddResponseHeader eng k v) t)"

definition ProcessResponseHeaders ::
  "'e engine \<Rightarrow> int \<Rightarrow> string \<Rightarrow> 'e txn \<Rightarrow> Interruption option \<times> 'e txn" where
  "ProcessResponseHeaders eng code ver t =
     invoke (CProcessResponseHeaders code ver) (eProcessResponseHeaders eng code ver) t"

definition WriteResponseBody ::
  "'e engine \<Rightarrow> bytes \<Rightarrow> 'e txn \<Rightarrow> (Interruption option \<times> int \<times> error option) \<times> 'e txn" where
  "WriteResponseBody eng b t = invoke (CWriteResponseBody b) (eWriteResponseBody eng b) t"

definition ProcessResponseBody ::
  "'e engine \<Rightarrow> 'e txn \<Rightarrow> (Interruption option \<times> error option) \<times> 'e txn" where
  "ProcessResponseBody eng t = invoke CProcessResponseBody (eProcessResponseBody eng) t"

definition ResponseBodyReader :: "'e engine \<Rightarrow> 'e txn \<Rightarrow> (bytes \<times> error option) \<times> 'e txn" where
  "ResponseBodyReader eng t = invoke CResponseBodyReader (eResponseBodyReader eng) t"

definition ProcessLogging :: "'e engine \<Rightarrow> 'e txn \<Rightarrow> 'e txn" where
  "ProcessLogging eng t = snd (invoke CProcessLogging (eProcessLogging eng) t)"

definition Close :: "'e engine \<Rightarrow> 'e txn \<Rightarrow> error option \<times> 'e txn" where
  "Close eng t = invoke CClose (eClose eng) t"

section \<open>The response interceptor (writer.go)\<close>

text \<open>
  \<open>rwInterceptor\<close> has the fields of the Go struct; the Go field \<open>size\<close> is
  \<open>rsize\<close> here. The writer and the transaction are held by reference in Go; while a
  request is served the interceptor is the only one to use them, so the record holds their
  current values. \<open>stdlog\<close> is not a field of the struct: it is the output of the
  process-wide logger of package \<open>log\<close>, carried along so that \<open>log.Printf\<close> is a
  visible effect. The text of the line names the caller's stack frame and is left out.
  The method \<open>Status\<close> is \<open>Status_of\<close>, since \<open>Status\<close> is a field of
  \<open>Interruption\<close>. The methods that only forward to the downstream writer (\<open>Push\<close>,
  \<open>Hijack\<close>, the deadlines) touch no field and are left out.
\<close>

datatype log_line = SuperfluousWriteHeader

record 'e rwInterceptor =
  w :: ResponseWriter
  tx :: "'e txn"
  proto :: string
  statusCode :: int
  rsize :: int
  isWriteHeaderFlush :: bool
  wroteHeader :: bool
  stdlog :: "log_line list"

definition notWritten :: int where
  "notWritten = - 1"

definition Status_of :: "'e rwInterceptor \<Rightarrow> int" where
  "Status_of i = statusCode i"

definition Written :: "'e rwInterceptor \<Rightarrow> bool" where
  "Written i = (rsize i \<noteq> notWritten)"

definition Size :: "'e rwInterceptor \<Rightarrow> int" where
  "Size i = (if rsize i < 0 then 0 else rsize i)"

definition reset ::
  "'e txn \<Rightarrow> ResponseWriter \<Rightarrow> string \<Rightarrow> 'e rwInterceptor \<Rightarrow> 'e rwInterceptor" where
  "reset t writer p i =
     i\<lparr>w := writer, tx := t, statusCode := StatusOK, proto := p, rsize := notWritten,
       isWriteHeaderFlush := False, wroteHeader := False\<rparr>"

definition overrideWriteHeader :: "int \<Rightarrow> 'e rwInterceptor \<Rightarrow> 'e rwInterceptor" where
  "overrideWriteHeader code i = i\<lparr>statusCode := code, rsize := 0\<rparr>"

definition flushWriteHeader :: "'e rwInterceptor \<Rightarrow> 'e rwInterceptor" where
  "flushWriteHeader i =
     (if \<not> isWriteHeaderFlush i
      then i\<lparr>w := downWriteHeader (statusCode i) (w i), isWriteHeaderFlush := True\<rparr>
      else i)"

text \<open>
  \<open>cleanHeaders\<close> ranges over the header map and calls \<open>Del\<close> on each key it meets.
  A Go range over a map does not produce an entry that was removed before it was reached.
\<close>

fun cleanLoop :: "string list \<Rightarrow> header \<Rightarrow> header" where
  "cleanLoop [] h = h"
| "cleanLoop (k # ks) h =
     (if k \<in> set (headerKeys h) then cleanLoop ks (headerDel k h) else cleanLoop ks h)"

definition cleanHeaders :: "'e rwInterceptor \<Rightarrow> 'e rwInterceptor" where
  "cleanHeaders i = i\<lparr>w := (w i)\<lparr>hdr := cleanLoop (headerKeys (hdr (w i))) (hdr (w i))\<rparr>\<rparr>"

text \<open>\<open>w.Header().Set(k, v)\<close>, on the header map of the downstream writer.\<close>

definition HeaderSet :: "string \<Rightarrow> string \<Rightarrow> 'e rwInterceptor \<Rightarrow> 'e rwInterceptor" where
  "HeaderSet k v i = i\<lparr>w := (w i)\<lparr>hdr := headerSet k v (hdr (w i))\<rparr>\<rparr>"

text \<open>The two nested loops at the head of \<open>WriteHeader\<close>.\<close>

definition addResponseHeaders :: "'e engine \<Rightarrow> header \<Rightarrow> 'e txn \<Rightarrow> 'e txn" where
  "addResponseHeaders eng h t =
     fold (\<lambda>kv t'. fold (\<lambda>v t''. AddResponseHeader eng (fst kv) v t'') (snd kv) t') h t"

definition WriteHeader :: "'e engine \<Rightarrow> int \<Rightarrow> 'e rwInterceptor \<Rightarrow> 'e rwInterceptor" where
  "WriteHeader eng code i =
     (if wroteHeader i then i\<lparr>stdlog := stdlog i @ [SuperfluousWriteHeader]\<rparr>
      else
        (let i1 = i\<lparr>tx := addResponseHeaders eng (hdr (w i)) (tx i)\<rparr>;
             i2 = i1\<lparr>statusCode := code, rsize := 0\<rparr>;
             r = ProcessResponseHeaders eng code (proto i2) (tx i2);
             i3 = i2\<lparr>tx := snd r\<rparr>
         in (case fst r of
               Some it \<Rightarrow>
                 (let i4 = HeaderSet ''Content-Length'' ''0'' (cleanHeaders i3);
                      i5 = i4\<lparr>statusCode :=
                                obtainStatusCodeFromInterruptionOrDefault it (statusCode i4)\<rparr>
                  in flushWriteHeader i5)
             | None \<Rightarrow> i3\<lparr>wroteHeader := True\<rparr>)))"

definition Write ::
  "'e engine \<Rightarrow> bytes \<Rightarrow> 'e rwInterceptor \<Rightarrow> (int \<times> error option) \<times> 'e rwInterceptor" where
  "Write eng b i =
     (if IsInterrupted eng (tx i) then ((0, None), i)
      else
        (let i1 = (if \<not> wroteHeader i then WriteHeader eng StatusOK i else i)
         in if IsResponseBodyAccessible eng (tx i1) \<and> IsResponseBodyProcessable eng (tx i1)
            then
              (let r = WriteResponseBody eng b (tx i1);
                   i2 = i1\<lparr>tx := snd r\<rparr>
               in (case fst r of
                     (Some it, n, err) \<Rightarrow>
                       (let i3 = HeaderSet ''Content-Length'' ''0'' (cleanHeaders i2);
                            i4 = overrideWriteHeader
                                   (obtainStatusCodeFromInterruptionOrDefault it (statusCode i3)) i3
                        in ((0, None), flushWriteHeader i4))
                   | (None, n, err) \<Rightarrow> ((n, err), i2\<lparr>rsize := rsize i2 + n\<rparr>)))
            else
              (let i2 = flushWriteHeader i1;
                   r = downWrite b (w i2);
                   i3 = i2\<lparr>w := snd r\<rparr>
               in (fst r, i3\<lparr>rsize := rsize i3 + fst (fst r)\<rparr>))))"

definition FlushError :: "'e engine \<Rightarrow> 'e rwInterceptor \<Rightarrow> error option \<times> 'e rwInterceptor" where
  "FlushError eng i = (None, if \<not> wroteHeader i then WriteHeader eng StatusOK i else i)"

section \<open>The response phase driver (coraza.go)\<close>

text \<open>
  \<open>io.Copy(i.w, reader)\<close> hands the content of the reader to the downstream writer. The
  content is delivered in one \<open>Write\<close>; an empty reader causes no \<open>Write\<close>. The copy
  fails with the writer's error, or with \<open>short write\<close> when the writer takes fewer
  bytes than it was given.
\<close>

definition ioCopy :: "ResponseWriter \<Rightarrow> bytes \<Rightarrow> error option \<times> ResponseWriter" where
  "ioCopy d content =
     (if content = [] then (None, d)
      else
        (let r = downWrite content d
         in (case snd (fst r) of
               Some e \<Rightarrow> (Some e, snd r)
             | None \<Rightarrow>
                 (if fst (fst r) \<noteq> int (length content)
                  then (Some (Error ''short write''), snd r)
                  else (None, snd r)))))"

definition processResponse ::
  "'e engine \<Rightarrow> 'e rwInterceptor \<Rightarrow> error option \<times> 'e rwInterceptor" where
  "processResponse eng i =
     (if IsInterrupted eng (tx i) then (None, i)
      else if IsResponseBodyAccessible eng (tx i) \<and> IsResponseBodyProcessable eng (tx i)
      then
        (let r = ProcessResponseBody eng (tx i);
             i1 = i\<lparr>tx := snd r\<rparr>
         in (case fst r of
               (it, Some err) \<Rightarrow>
                 (Some err, flushWriteHeader (overrideWriteHeader StatusInternalServerError i1))
             | (Some it, None) \<Rightarrow>
                 (let i2 = HeaderSet ''Content-Length'' ''0'' (cleanHeaders i1);
                      i3 = overrideWriteHeader
                             (obtainStatusCodeFromInterruptionOrDefault it (statusCode i2)) i2
                  in (None, flushWriteHeader i3))
             | (None, None) \<Rightarrow>
                 (let rr = ResponseBodyReader eng (tx i1);
                      i2 = i1\<lparr>tx := snd rr\<rparr>
                  in (case snd (fst rr) of
                        Some err \<Rightarrow>
                          (Some (Error (''failed to release the response body reader: ''
                                        @ errorMessage err)),
                           flushWriteHeader (overrideWriteHeader StatusInternalServerError i2))
                      | None \<Rightarrow>
                          (let i3 = flushWriteHeader i2;
                               c = ioCopy (w i3) (fst (fst rr))
                           in (case fst c of
                                 Some err \<Rightarrow>
                                   (Some (Error (''failed to copy the response body: ''
                                                 @ errorMessage err)),
                                    i3\<lparr>w := snd c\<rparr>)
                               | None \<Rightarrow> (None, i3\<lparr>w := snd c\<rparr>)))))))
      else (None, flushWriteHeader i))"

section \<open>The request phase driver (coraza.go)\<close>

text \<open>
  \<open>strings.LastIndexByte\<close>: the index of the last occurrence of the byte, or \<open>-1\<close>.
\<close>

fun LastIndexByte :: "string \<Rightarrow> char \<Rightarrow> int" where
  "LastIndexByte [] c = - 1"
| "LastIndexByte (x # xs) c =
     (if LastIndexByte xs c \<noteq> - 1 then LastIndexByte xs c + 1
      else if x = c then 0
      else - 1)"

text \<open>
  \<open>strconv.Atoi\<close> on a 64-bit platform: an optional sign and then decimal digits only.
  A string that is not of this form gives \<open>0\<close> and a syntax error; a value outside the
  range of \<open>int\<close> gives the nearest bound and a range error.
\<close>

definition digitVal :: "char \<Rightarrow> int option" where
  "digitVal c = map_of (zip digitChars [0, 1, 2, 3, 4, 5, 6, 7, 8, 9]) c"

fun parseDigits :: "string \<Rightarrow> int \<Rightarrow> int option" where
  "parseDigits [] acc = Some acc"
| "parseDigits (c # cs) acc =
     (case digitVal c of None \<Rightarrow> None | Some d \<Rightarrow> parseDigits cs (acc * 10 + d))"

definition atoiDigits :: "bool \<Rightarrow> string \<Rightarrow> int \<times> error option" where
  "atoiDigits neg ds =
     (if ds = [] then (0, Some (Error ''invalid syntax''))
      else
        (case parseDigits ds 0 of
           None \<Rightarrow> (0, Some (Error ''invalid syntax''))
         | Some v \<Rightarrow>
             (if \<not> neg \<and> v \<ge> 2 ^ 63 then (2 ^ 63 - 1, Some (Error ''value out of range''))
              else if neg \<and> v > 2 ^ 63 then (- (2 ^ 63), Some (Error ''value out of range''))
              else (if neg then - v else v, None))))"

definition Atoi :: "string \<Rightarrow> int \<times> error option" where
  "Atoi s =
     (case s of
        [] \<Rightarrow> (0, Some (Error ''invalid syntax''))
      | c # r \<Rightarrow>
          (if c = CHR ''-'' then atoiDigits True r
           else if c = CHR ''+'' then atoiDigits False r
           else atoiDigits False s))"

definition addRequestHeaders :: "'e engine \<Rightarrow> header \<Rightarrow> 'e txn \<Rightarrow> 'e txn" where
  "addRequestHeaders eng h t =
     fold (\<lambda>kv t'. fold (\<lambda>v t''. AddRequestHeader eng (fst kv) v t'') (snd kv) t') h t"

text \<open>
  The result of \<open>processRequest\<close> is the Go pair \<open>(interruption, error)\<close>, the transaction
  and the request, whose \<open>Body\<close> the function replaces. A body stream is the bytes still
  to be read from it; \<open>ReadRequestBodyFrom\<close> reports what it left unread.
  \<open>TransferEncoding\<close> is \<open>nil\<close> when it is the empty list. \<open>requestBody\<close> is the part
  of \<open>processRequest\<close> after the header phase.
\<close>

type_synonym 'e request_result = "(Interruption option \<times> error option) \<times> 'e txn \<times> Request"

definition requestBody :: "'e engine \<Rightarrow> 'e txn \<Rightarrow> Request \<Rightarrow> 'e request_result" where
  "requestBody eng t req =
     (let final = (let p = ProcessRequestBody eng t in (fst p, snd p, req))
      in if IsRequestBodyAccessible eng t
         then
           (case Body req of
              NilBody \<Rightarrow> final
            | NoBody \<Rightarrow> final
            | Stream content \<Rightarrow>
                (let r = ReadRequestBodyFrom eng content t;
                     t1 = snd r
                 in (case fst r of
                       (it, n, Some err, rest) \<Rightarrow>
                         ((None, Some (Error (''failed to append request body: ''
                                              @ errorMessage err))),
                          t1, req\<lparr>Body := Stream rest\<rparr>)
                     | (Some it, n, None, rest) \<Rightarrow>
                         ((Some it, None), t1, req\<lparr>Body := Stream rest\<rparr>)
                     | (None, n, None, rest) \<Rightarrow>
                         (let rr = RequestBodyReader eng t1
                          in (case snd (fst rr) of
                                Some err \<Rightarrow>
                                  ((None, Some (Error (''failed to get the request body: ''
                                                       @ errorMessage err))),
                                   snd rr, req\<lparr>Body := Stream rest\<rparr>)
                              | None \<Rightarrow>
                                  (let p = ProcessRequestBody eng (snd rr)
                                   in (fst p, snd p,
                                       req\<lparr>Body := Stream (fst (fst rr) @ rest)\<rparr>)))))))
         else final)"

definition processRequest :: "'e engine \<Rightarrow> 'e txn \<Rightarrow> Request \<Rightarrow> 'e request_result" where
  "processRequest eng t req =
     (let idx = LastIndexByte (RemoteAddr req) CHR '':'';
          client = (if idx \<noteq> - 1 then take (nat idx) (RemoteAddr req) else []);
          cport = (if idx \<noteq> - 1 then fst (Atoi (drop (nat (idx + 1)) (RemoteAddr req))) else 0);
          t1 = ProcessConnection eng client cport [] 0 t;
          t2 = ProcessURI eng (URL req) (Method req) (Proto req) t1;
          t3 = addRequestHeaders eng (Header req) t2;
          t4 = (if Host req \<noteq> []
                then SetServerName eng (Host req) (AddRequestHeader eng ''Host'' (Host req) t3)
                else t3);
          t5 = (if TransferEncoding req \<noteq> []
                then AddRequestHeader eng ''Transfer-Encoding'' (hd (TransferEncoding req)) t4
                else t4);
          r = ProcessRequestHeaders eng t5
      in (case fst r of
            Some it \<Rightarrow> ((Some it, None), snd r, req)
          | None \<Rightarrow> requestBody eng (snd r) req))"

section \<open>The downstream handler\<close>

text \<open>
  The handler \<open>next\<close> is arbitrary code. What it can do to the response is a sequence of
  calls on the writer it is given: \<open>WriteHeader\<close>, \<open>Write\<close>, \<open>FlushError\<close>, and changes
  of the header map through \<open>Set\<close>, \<open>Add\<close>, \<open>Del\<close> or an assignment to the map.
  \<open>WriteString\<close> and \<open>ReadFrom\<close> wrap the interceptor in \<open>onlyWrite\<close> and reach it
  through \<open>Write\<close> alone, one call per buffer, so they are sequences of \<open>HWrite\<close>. A
  handler that chooses its next call from what the earlier ones returned still makes, in
  each run, one such sequence; a property of all sequences covers it.
\<close>

datatype handler_op =
    HWriteHeader int
  | HWrite bytes
  | HFlushError
  | HHeaderSet string string
  | HHeaderAdd string string
  | HHeaderDel string
  | HHeaderAssign string "string list"

definition onHeader :: "(header \<Rightarrow> header) \<Rightarrow> 'e rwInterceptor \<Rightarrow> 'e rwInterceptor" where
  "onHeader f i = i\<lparr>w := (w i)\<lparr>hdr := f (hdr (w i))\<rparr>\<rparr>"

fun handle :: "'e engine \<Rightarrow> handler_op \<Rightarrow> 'e rwInterceptor \<Rightarrow> 'e rwInterceptor" where
  "handle eng (HWriteHeader code) i = WriteHeader eng code i"
| "handle eng (HWrite b) i = snd (Write eng b i)"
| "handle eng HFlushError i = snd (FlushError eng i)"
| "handle eng (HHeaderSet k v) i = onHeader (headerSet k v) i"
| "handle eng (HHeaderAdd k v) i = onHeader (headerAdd k v) i"
| "handle eng (HHeaderDel k) i = onHeader (headerDel k) i"
| "handle eng (HHeaderAssign k vs) i = onHeader (headerAssign k vs) i"

definition run_handler :: "'e engine \<Rightarrow> handler_op list \<Rightarrow> 'e rwInterceptor \<Rightarrow> 'e rwInterceptor" where
  "run_handler eng ops i = fold (handle eng) ops i"

text \<open>The same calls made on the downstream writer itself, when the engine is off.\<close>

fun direct :: "handler_op \<Rightarrow> ResponseWriter \<Rightarrow> ResponseWriter" where
  "direct (HWriteHeader code) d = downWriteHeader code d"
| "direct (HWrite b) d = snd (downWrite b d)"
| "direct HFlushError d = d"
| "direct (HHeaderSet k v) d = d\<lparr>hdr := headerSet k v (hdr d)\<rparr>"
| "direct (HHeaderAdd k v) d = d\<lparr>hdr := headerAdd k v (hdr d)\<rparr>"
| "direct (HHeaderDel k) d = d\<lparr>hdr := headerDel k (hdr d)\<rparr>"
| "direct (HHeaderAssign k vs) d = d\<lparr>hdr := headerAssign k vs (hdr d)\<rparr>"

section \<open>The middleware entry point (coraza.go)\<close>

text \<open>
  One call of the function returned by \<open>Intercept\<close>. Its inputs are the engine, the
  handler, the writer and the request of the context, and the instance that \<open>p.Get()\<close>
  hands out (a new one or one left by an earlier request). \<open>exchange\<close> is what the call
  leaves behind: the writer, the transaction, the request, the instance put back into the
  pool, the messages sent to the transaction's debug logger, and whether the handler ran.

  \<open>serve\<close> is the body of the function up to its \<open>return\<close>; \<open>finish\<close> is the
  function deferred at its head, which runs after every \<open>return\<close> of the body. The two
  other deferred calls run before it: \<open>p.Put\<close> gives \<open>xpool\<close>, and \<open>cc.Close\<close>
  releases the cloned context, which holds nothing of the response.
\<close>

record 'e exchange =
  xwriter :: ResponseWriter
  xtx :: "'e txn"
  xreq :: Request
  xpool :: "'e rwInterceptor option"
  xdebug :: "string list"
  xhandled :: bool

definition serve ::
  "'e engine \<Rightarrow> handler_op list \<Rightarrow> ResponseWriter \<Rightarrow> Request \<Rightarrow> 'e rwInterceptor \<Rightarrow> 'e txn
     \<Rightarrow> 'e exchange" where
  "serve eng next writer req inst t =
     (if IsRuleEngineOff eng t
      then \<lparr>xwriter = fold direct next writer, xtx = t, xreq = req, xpool = None,
            xdebug = [], xhandled = True\<rparr>
      else
        (let r = processRequest eng t req;
             t1 = fst (snd r);
             req1 = snd (snd r)
         in (case fst r of
               (it, Some err) \<Rightarrow>
                 \<lparr>xwriter = writer, xtx = t1, xreq = req1, xpool = None,
                  xdebug = [''Failed to process request''], xhandled = False\<rparr>
             | (Some it, None) \<Rightarrow>
                 \<lparr>xwriter = downWriteHeader
                              (obtainStatusCodeFromInterruptionOrDefault it StatusOK) writer,
                  xtx = t1, xreq = req1, xpool = None, xdebug = [], xhandled = False\<rparr>
             | (None, None) \<Rightarrow>
                 (let i0 = reset t1 writer (Proto req1) inst;
                      i1 = run_handler eng next i0;
                      rr = processResponse eng i1
                  in \<lparr>xwriter = w (snd rr), xtx = tx (snd rr), xreq = req1,
                      xpool = Some (snd rr),
                      xdebug = (case fst rr of
                                  Some err \<Rightarrow> [''Failed to close the response'']
                                | None \<Rightarrow> []),
                      xhandled = True\<rparr>))))"

definition finish :: "'e engine \<Rightarrow> 'e exchange \<Rightarrow> 'e exchange" where
  "finish eng x =
     (let r = Close eng (ProcessLogging eng (xtx x))
      in x\<lparr>xtx := snd r,
           xdebug := xdebug x @ (case fst r of
                                   Some err \<Rightarrow> [''Failed to close the transaction'']
                                 | None \<Rightarrow> [])\<rparr>)"

definition Intercept ::
  "'e engine \<Rightarrow> handler_op list \<Rightarrow> ResponseWriter \<Rightarrow> Request \<Rightarrow> 'e rwInterceptor
     \<Rightarrow> 'e exchange" where
  "Intercept eng next writer req inst =
     finish eng (serve eng next writer req inst (NewTransaction eng req))"

section \<open>A scripted engine and sample values\<close>

text \<open>
  An engine whose state says what each phase is to answer. It serves as the concrete
  engine at which the theorems below are instantiated. A verdict it gives becomes its
  standing verdict; response bytes written to it are kept in \<open>buffered\<close> and given back
  by \<open>ResponseBodyReader\<close>.
\<close>

record script =
  ruleEngineOff :: bool
  standing :: "Interruption option"
  inspectRequest :: bool
  inspectResponse :: bool
  atRequestHeaders :: "Interruption option"
  atRequestBody :: "Interruption option"
  failRequestBody :: "error option"
  atResponseHeaders :: "Interruption option"
  atResponseWrite :: "Interruption option"
  atResponseBody :: "Interruption option"
  failResponseBody :: "error option"
  failClose :: "error option"
  buffered :: bytes

definition verdict :: "Interruption option \<Rightarrow> script \<Rightarrow> Interruption option \<times> script" where
  "verdict v s = (case v of None \<Rightarrow> (None, s) | Some it \<Rightarrow> (Some it, s\<lparr>standing := Some it\<rparr>))"

definition scripted :: "script \<Rightarrow> script engine" where
  "scripted s0 =
     \<lparr>eNewTransaction = (\<lambda>r. s0),
      eIsRuleEngineOff = ruleEngineOff,
      eIsInterrupted = (\<lambda>s. standing s \<noteq> None),
      eIsRequestBodyAccessible = inspectRequest,
      eIsResponseBodyAccessible = inspectResponse,
      eIsResponseBodyProcessable = inspectResponse,
      eProcessConnection = (\<lambda>c cp sv sp s. ((), s)),
      eProcessURI = (\<lambda>u m p s. ((), s)),
      eAddRequestHeader = (\<lambda>k v s. ((), s)),
      eSetServerName = (\<lambda>n s. ((), s)),
      eProcessRequestHeaders = (\<lambda>s. verdict (atRequestHeaders s) s),
      eReadRequestBodyFrom = (\<lambda>b s. ((None, int (length b), failRequestBody s, []), s)),
      eRequestBodyReader = (\<lambda>s. (([], None), s)),
      eProcessRequestBody =
        (\<lambda>s. ((fst (verdict (atRequestBody s) s), None), snd (verdict (atRequestBody s) s))),
      eAddResponseHeader = (\<lambda>k v s. ((), s)),
      eProcessResponseHeaders = (\<lambda>code p s. verdict (atResponseHeaders s) s),
      eWriteResponseBody =
        (\<lambda>b s. (case atResponseWrite s of
                   Some it \<Rightarrow> ((Some it, 0, None), s\<lparr>standing := Some it\<rparr>)
                 | None \<Rightarrow> ((None, int (length b), None), s\<lparr>buffered := buffered s @ b\<rparr>))),
      eProcessResponseBody =
        (\<lambda>s. (case failResponseBody s of
                 Some err \<Rightarrow> ((None, Some err), s)
               | None \<Rightarrow>
                   ((fst (verdict (atResponseBody s) s), None),
                    snd (verdict (atResponseBody s) s)))),
      eResponseBodyReader = (\<lambda>s. ((buffered s, None), s)),
      eProcessLogging = (\<lambda>s. ((), s)),
      eClose = (\<lambda>s. (failClose s, s))\<rparr>"

definition quiet :: script where
  "quiet =
     \<lparr>ruleEngineOff = False, standing = None, inspectRequest = False, inspectResponse = False,
      atRequestHeaders = None, atRequestBody = None, failRequestBody = None,
      atResponseHeaders = None, atResponseWrite = None, atResponseBody = None,
      failResponseBody = None, failClose = None, buffered = []\<rparr>"

definition deny :: "int \<Rightarrow> Interruption" where
  "deny st = \<lparr>RuleID = 1, Action = ''deny'', Status = st, Data = []\<rparr>"

definition session :: "script \<Rightarrow> script txn" where
  "session s = \<lparr>est = s, calls = []\<rparr>"

text \<open>A downstream writer that has received nothing and takes every byte it is given.\<close>

definition blankWriter :: ResponseWriter where
  "blankWriter = \<lparr>hdr = [], statuses = [], written = [], reply = (\<lambda>got b. (int (length b), None))\<rparr>"

text \<open>An instance as \<open>p.Get()\<close> may hand it out: left over from a request that was blocked.\<close>

definition usedInstance :: "script rwInterceptor" where
  "usedInstance =
     \<lparr>w = blankWriter\<lparr>statuses := [403]\<rparr>, tx = session (quiet\<lparr>standing := Some (deny 0)\<rparr>),
      proto = ''HTTP/1.0'', statusCode = 403, rsize = 0, isWriteHeaderFlush = True,
      wroteHeader = True, stdlog = []\<rparr>"

definition fresh :: "script \<Rightarrow> script rwInterceptor" where
  "fresh s = reset (session s) blankWriter ''HTTP/1.1'' usedInstance"

definition sampleRequest :: Request where
  "sampleRequest =
     \<lparr>RemoteAddr = ''192.0.2.7:5123'', URL = ''/index.html'', Method = ''GET'',
      Proto = ''HTTP/1.1'', Header = [(''Accept'', [''*/*''])], Host = ''example.org'',
      TransferEncoding = [], Body = NoBody\<rparr>"

text \<open>Scripts and runs the theorems are instantiated at.\<close>

definition blocked :: script where
  "blocked = quiet\<lparr>standing := Some (deny 0)\<rparr>"

definition failing :: script where
  "failing = quiet\<lparr>inspectResponse := True, failResponseBody := Some (Error ''disk full'')\<rparr>"

definition buffering :: "script \<Rightarrow> script rwInterceptor" where
  "buffering s = run_handler (scripted s) [HWrite ''abc''] (fresh s)"

definition denyHeaders :: script where
  "denyHeaders = quiet\<lparr>atResponseHeaders := Some (deny 0)\<rparr>"

definition engineOff :: script where
  "engineOff = quiet\<lparr>ruleEngineOff := True\<rparr>"

definition denyRequest :: script where
  "denyRequest = quiet\<lparr>atRequestHeaders := Some (deny 0)\<rparr>"

definition failRequest :: script where
  "failRequest =
     quiet\<lparr>inspectRequest := True, failRequestBody := Some (Error ''reset by peer'')\<rparr>"

definition noPortRequest :: Request where
  "noPortRequest = sampleRequest\<lparr>RemoteAddr := ''192.0.2.7''\<rparr>"

definition ipv6Request :: Request where
  "ipv6Request = sampleRequest\<lparr>RemoteAddr := ''2001:db8::1''\<rparr>"

definition postRequest :: Request where
  "postRequest = sampleRequest\<lparr>Method := ''POST'', Body := Stream ''payload''\<rparr>"

definition denyBody :: script where
  "denyBody = quiet\<lparr>inspectResponse := True, atResponseBody := Some (deny 0)\<rparr>"

text \<open>
  A handler that stores one header by assignment to the map and one through \<open>Set\<close>, and
  writes three bytes.
\<close>

definition rawKeyRun :: "script rwInterceptor" where
  "rawKeyRun =
     run_handler (scripted denyBody)
       [HHeaderAssign ''x-trace'' [''1''], HHeaderSet ''content-type'' ''text/html'',
        HWrite ''abc'']
       (fresh denyBody)"

section \<open>Invariants used in the proofs\<close>

text \<open>
  \<open>once base i\<close>: since the downstream writer had received the statuses \<open>base\<close>, the
  interceptor has passed it one more status if its guard \<open>isWriteHeaderFlush\<close> is set,
  and none if it is not.
\<close>

definition once :: "int list \<Rightarrow> 'e rwInterceptor \<Rightarrow> bool" where
  "once base i =
     (\<exists>sent. statuses (w i) = base @ sent \<and>
             length sent = (if isWriteHeaderFlush i then 1 else 0))"

text \<open>
  \<open>lifecycle\<close> singles out the two calls that end a transaction. \<open>grows t t'\<close>: the
  calls of \<open>t'\<close> are those of \<open>t\<close> followed by calls none of which ends the
  transaction.
\<close>

definition lifecycle :: "tx_call \<Rightarrow> bool" where
  "lifecycle c = (c = CProcessLogging \<or> c = CClose)"

definition grows :: "'e txn \<Rightarrow> 'e txn \<Rightarrow> bool" where
  "grows t t' = (\<exists>ys. calls t' = calls t @ ys \<and> filter lifecycle ys = [])"


text \<open>A header key is canonical when \<open>CanonicalMIMEHeaderKey\<close> leaves it as it is.\<close>

definition canonical :: "string \<Rightarrow> bool" where
  "canonical k = (CanonicalMIMEHeaderKey k = k)"

text \<open>
  \<open>deferred base i\<close>: as long as the status line is not flushed, the downstream writer
  has received neither a status nor a slice since it was \<open>base\<close>.
\<close>

definition deferred :: "ResponseWriter \<Rightarrow> 'e rwInterceptor \<Rightarrow> bool" where
  "deferred base i =
     (isWriteHeaderFlush i \<or> (statuses (w i) = statuses base \<and> written (w i) = written base))"

text \<open>
  \<open>absorbing eng\<close>: a standing verdict of the engine survives the two calls that
  \<open>WriteHeader\<close> makes on the transaction. \<open>halted eng sent i\<close>: a verdict stands and
  the downstream writer has received the slices \<open>sent\<close>.
\<close>

definition absorbing :: "'e engine \<Rightarrow> bool" where
  "absorbing eng =
     (\<forall>e. eIsInterrupted eng e \<longrightarrow>
        (\<forall>k v. eIsInterrupted eng (snd (eAddResponseHeader eng k v e))) \<and>
        (\<forall>code p. eIsInterrupted eng (snd (eProcessResponseHeaders eng code p e))))"

definition halted :: "'e engine \<Rightarrow> bytes list \<Rightarrow> 'e rwInterceptor \<Rightarrow> bool" where
  "halted eng sent i = (IsInterrupted eng (tx i) \<and> written (w i) = sent)"

section \<open>The verdict resolver\<close>

text \<open>
  C5. The resolver is a function of the verdict and the fallback status alone. A verdict
  with action \<open>deny\<close> and status 0 resolves to 403; a verdict with action \<open>deny\<close> and
  a status other than 0 resolves to that status; a verdict with any other action resolves to
  the fallback status, unchanged.
\<close>

theorem resolver_policy:
  "(Action it = ''deny'' \<and> Status it = 0 \<longrightarrow>
      obtainStatusCodeFromInterruptionOrDefault it fallback = 403) \<and>
   (Action it = ''deny'' \<and> Status it \<noteq> 0 \<longrightarrow>
      obtainStatusCodeFromInterruptionOrDefault it fallback = Status it) \<and>
   (Action it \<noteq> ''deny'' \<longrightarrow>
      obtainStatusCodeFromInterruptionOrDefault it fallback = fallback)"
  by (simp add: obtainStatusCodeFromInterruptionOrDefault_def)

theorem resolver_policy_witness:
  "obtainStatusCodeFromInterruptionOrDefault (deny 0) 200 = 403 \<and>
   obtainStatusCodeFromInterruptionOrDefault (deny 429) 200 = 429 \<and>
   obtainStatusCodeFromInterruptionOrDefault
     \<lparr>RuleID = 7, Action = ''redirect'', Status = 302, Data = []\<rparr> 200 = 200"
  using resolver_policy [of "deny 0" 200] resolver_policy [of "deny 429" 200]
    resolver_policy [of "\<lparr>RuleID = 7, Action = ''redirect'', Status = 302, Data = []\<rparr>" 200]
  by (simp add: deny_def)

section \<open>The status line is written at most once\<close>

lemmas writer_defs =
  flushWriteHeader_def downWriteHeader_def downWrite_def cleanHeaders_def HeaderSet_def
  overrideWriteHeader_def onHeader_def

lemma flush_idem: "flushWriteHeader (flushWriteHeader i) = flushWriteHeader i"
  by (simp add: flushWriteHeader_def)

lemma once_flush: "once base i \<Longrightarrow> once base (flushWriteHeader i)"
  by (auto simp: once_def flushWriteHeader_def downWriteHeader_def)

lemma once_WriteHeader: "once base i \<Longrightarrow> once base (WriteHeader eng code i)"
  by (auto simp: once_def WriteHeader_def Let_def writer_defs split: option.splits)

lemma once_Write: "once base i \<Longrightarrow> once base (snd (Write eng b i))"
  by (auto simp: once_def Write_def WriteHeader_def Let_def writer_defs
           split: option.splits prod.splits)

lemma once_FlushError: "once base i \<Longrightarrow> once base (snd (FlushError eng i))"
  by (simp add: FlushError_def once_WriteHeader)

lemma once_onHeader: "once base i \<Longrightarrow> once base (onHeader f i)"
  by (simp add: once_def onHeader_def)

lemma once_handle: "once base i \<Longrightarrow> once base (handle eng op i)"
  by (cases op) (simp_all add: once_WriteHeader once_Write once_FlushError once_onHeader)

lemma once_run_handler: "once base i \<Longrightarrow> once base (run_handler eng ops i)"
  unfolding run_handler_def by (induction ops arbitrary: i) (simp_all add: once_handle)

lemma ioCopy_statuses: "statuses (snd (ioCopy d c)) = statuses d"
  by (simp add: ioCopy_def Let_def downWrite_def split: option.splits)

lemma once_processResponse: "once base i \<Longrightarrow> once base (snd (processResponse eng i))"
  by (auto simp: once_def processResponse_def Let_def writer_defs ioCopy_statuses
           split: option.splits prod.splits)

lemma once_reset: "once (statuses writer) (reset t writer p inst)"
  by (simp add: once_def reset_def)

lemma once_funpow: "once base i \<Longrightarrow> once base ((flushWriteHeader ^^ n) i)"
  by (induction n) (simp_all add: once_flush)

text \<open>
  C1. A request served through the interceptor starts with \<open>reset\<close>, goes on with
  whatever calls the handler makes, and ends with the response phase driver. Whatever the
  engine answers, whatever the handler calls and however often \<open>flushWriteHeader\<close> is
  called again afterwards, the downstream writer has received at most one status more than
  it had before; and a second \<open>flushWriteHeader\<close> changes nothing the first one left.
\<close>

theorem status_line_written_at_most_once:
  "(\<exists>sent. statuses (w ((flushWriteHeader ^^ n)
              (snd (processResponse eng (run_handler eng ops (reset t writer p inst))))))
            = statuses writer @ sent \<and>
          length sent \<le> 1 \<and>
          length sent = (if isWriteHeaderFlush ((flushWriteHeader ^^ n)
              (snd (processResponse eng (run_handler eng ops (reset t writer p inst)))))
            then 1 else 0)) \<and>
   flushWriteHeader (flushWriteHeader i) = flushWriteHeader i"
proof -
  have "once (statuses writer) ((flushWriteHeader ^^ n)
        (snd (processResponse eng (run_handler eng ops (reset t writer p inst)))))"
    by (intro once_funpow once_processResponse once_run_handler once_reset)
  then show ?thesis
    by (auto simp: once_def flush_idem split: if_splits)
qed

section \<open>Evaluating the definitions on the sample values\<close>

lemmas call_defs =
  invoke_def NewTransaction_def IsRuleEngineOff_def IsInterrupted_def IsRequestBodyAccessible_def
  IsResponseBodyAccessible_def IsResponseBodyProcessable_def ProcessConnection_def ProcessURI_def
  AddRequestHeader_def SetServerName_def ProcessRequestHeaders_def ReadRequestBodyFrom_def
  RequestBodyReader_def ProcessRequestBody_def AddResponseHeader_def ProcessResponseHeaders_def
  WriteResponseBody_def ProcessResponseBody_def ResponseBodyReader_def ProcessLogging_def Close_def

lemmas sample_defs =
  scripted_def verdict_def quiet_def deny_def session_def blankWriter_def usedInstance_def
  fresh_def sampleRequest_def

lemmas header_defs =
  headerKeys_def headerGet_def headerDelete_def headerAssign_def headerSet_def headerAdd_def
  headerDel_def CanonicalMIMEHeaderKey_def validHeaderFieldByte_def canonByte_def toUpperB_def
  toLowerB_def lowerAlpha_def upperAlpha_def digitChars_def tokenPunct_def

lemmas request_defs =
  processRequest_def requestBody_def addRequestHeaders_def Atoi_def atoiDigits_def digitVal_def
  digitChars_def

lemmas entry_defs = Intercept_def serve_def finish_def

lemmas run_defs =
  run_handler_def Write_def WriteHeader_def FlushError_def processResponse_def reset_def
  addResponseHeaders_def ioCopy_def Let_def StatusOK_def StatusInternalServerError_def
  notWritten_def obtainStatusCodeFromInterruptionOrDefault_def

section \<open>A standing verdict\<close>

lemma Write_interrupted: "IsInterrupted eng (tx i) \<Longrightarrow> Write eng b i = ((0, None), i)"
  by (simp add: Write_def)

lemma run_writes_interrupted:
  "IsInterrupted eng (tx i) \<Longrightarrow> run_handler eng (map HWrite bs) i = i"
  unfolding run_handler_def by (induction bs) (simp_all add: Write_interrupted)

lemma interrupted_addResponseHeaders:
  "absorbing eng \<Longrightarrow> IsInterrupted eng t \<Longrightarrow> IsInterrupted eng (addResponseHeaders eng h t)"
  unfolding addResponseHeaders_def
proof (induction h arbitrary: t)
  case Nil
  then show ?case by simp
next
  case (Cons kv h)
  have inner: "IsInterrupted eng (fold (\<lambda>v t''. AddResponseHeader eng (fst kv) v t'') vs t')"
    if "IsInterrupted eng t'" for vs t'
    using that Cons.prems(1)
    by (induction vs arbitrary: t')
       (auto simp: IsInterrupted_def AddResponseHeader_def invoke_def absorbing_def)
  from Cons.IH [OF Cons.prems(1) inner [OF Cons.prems(2)]] show ?case by simp
qed

lemma halted_WriteHeader:
  "absorbing eng \<Longrightarrow> halted eng sent i \<Longrightarrow> halted eng sent (WriteHeader eng code i)"
proof -
  assume a: "absorbing eng" and h: "halted eng sent i"
  have "IsInterrupted eng (snd (ProcessResponseHeaders eng code (proto i)
          (addResponseHeaders eng (hdr (w i)) (tx i))))"
    using interrupted_addResponseHeaders [OF a, of "tx i" "hdr (w i)"] a h
    by (auto simp: halted_def IsInterrupted_def ProcessResponseHeaders_def invoke_def absorbing_def)
  then show ?thesis
    using h by (auto simp: halted_def WriteHeader_def Let_def writer_defs split: option.splits)
qed

lemma halted_handle:
  "absorbing eng \<Longrightarrow> halted eng sent i \<Longrightarrow> halted eng sent (handle eng op i)"
  by (cases op)
     (auto simp: halted_WriteHeader FlushError_def Write_def, auto simp: halted_def onHeader_def)

lemma halted_run_handler:
  "absorbing eng \<Longrightarrow> halted eng sent i \<Longrightarrow> halted eng sent (run_handler eng ops i)"
  unfolding run_handler_def by (induction ops arbitrary: i) (simp_all add: halted_handle)

lemma standing_verdict_any_calls:
  assumes "absorbing eng" and "IsInterrupted eng (tx i)"
  shows "IsInterrupted eng (tx (run_handler eng ops i)) \<and>
         written (w (run_handler eng ops i)) = written (w i) \<and>
         written (w (snd (processResponse eng (run_handler eng ops i)))) = written (w i)"
proof -
  have "halted eng (written (w i)) i"
    using assms(2) by (simp add: halted_def)
  from halted_run_handler [OF assms(1) this, of ops] show ?thesis
    by (simp add: halted_def processResponse_def)
qed

lemma absorbing_scripted: "absorbing (scripted s)"
  by (auto simp: absorbing_def scripted_def verdict_def split: option.splits)

text \<open>
  In a state whose transaction reports a standing verdict, a \<open>Write\<close> returns
  \<open>(0, nil)\<close> and leaves the interceptor, the downstream writer and the transaction as
  they were; so does any sequence of \<open>Write\<close> calls; and the response phase driver
  returns \<open>nil\<close> with the same state. When the engine keeps its verdict standing
  through the calls of \<open>WriteHeader\<close>, the downstream writer receives no slice
  whatever the handler calls next.
\<close>

lemma standing_verdict_at_entry:
  assumes "IsInterrupted eng (tx i)"
  shows "Write eng b i = ((0, None), i) \<and>
         run_handler eng (map HWrite bs) i = i \<and>
         processResponse eng i = (None, i) \<and>
         written (w (snd (processResponse eng (run_handler eng (map HWrite bs) i))))
           = written (w i) \<and>
         (absorbing eng \<longrightarrow>
            IsInterrupted eng (tx (run_handler eng ops i)) \<and>
            written (w (snd (processResponse eng (run_handler eng ops i)))) = written (w i))"
  using assms standing_verdict_any_calls [of eng i ops]
  by (simp add: Write_interrupted run_writes_interrupted processResponse_def)

text \<open>
  C2. \<open>Write\<close> asks for a standing verdict once, on entry. The handler's first call is
  \<open>Write("abc")\<close>; no verdict stands yet, so \<open>Write\<close> goes on to its implicit
  \<open>WriteHeader(200)\<close>, where the response-header phase denies: the verdict stands from
  then on, the headers are replaced by \<open>Content-Length: 0\<close> and the status 403 is
  flushed. The response body is not inspected, so \<open>Write\<close> carries on to
  \<open>w.w.Write(b)\<close> without asking again: the downstream writer receives the three bytes
  after the verdict, and \<open>Write\<close> reports 3 bytes written. Only the next \<open>Write\<close>
  is discarded. The same is seen through the middleware as a whole.
\<close>

theorem verdict_inside_Write_lets_bytes_through:
  "\<not> IsInterrupted (scripted denyHeaders) (tx (fresh denyHeaders)) \<and>
   IsInterrupted (scripted denyHeaders)
     (tx (WriteHeader (scripted denyHeaders) StatusOK (fresh denyHeaders))) \<and>
   statuses (w (WriteHeader (scripted denyHeaders) StatusOK (fresh denyHeaders))) = [403] \<and>
   fst (Write (scripted denyHeaders) ''abc'' (fresh denyHeaders)) = (3, None) \<and>
   IsInterrupted (scripted denyHeaders)
     (tx (snd (Write (scripted denyHeaders) ''abc'' (fresh denyHeaders)))) \<and>
   statuses (w (snd (Write (scripted denyHeaders) ''abc'' (fresh denyHeaders)))) = [403] \<and>
   hdr (w (snd (Write (scripted denyHeaders) ''abc'' (fresh denyHeaders))))
     = [(''Content-Length'', [''0''])] \<and>
   written (w (snd (Write (scripted denyHeaders) ''abc'' (fresh denyHeaders)))) = [''abc''] \<and>
   fst (Write (scripted denyHeaders) ''def''
          (snd (Write (scripted denyHeaders) ''abc'' (fresh denyHeaders)))) = (0, None) \<and>
   statuses (xwriter (Intercept (scripted denyHeaders) [HWrite ''abc'', HWrite ''def'']
                        blankWriter sampleRequest usedInstance)) = [403] \<and>
   written (xwriter (Intercept (scripted denyHeaders) [HWrite ''abc'', HWrite ''def'']
                       blankWriter sampleRequest usedInstance)) = [''abc'']"
  by (simp add: denyHeaders_def entry_defs sample_defs call_defs request_defs run_defs writer_defs
        header_defs)

section \<open>A failure of the response-body phase\<close>

text \<open>
  C7. The status line has not been flushed, no verdict stands, the response body is
  accessible and processable, and \<open>ProcessResponseBody\<close> returns an error. Then the
  driver returns that error; the downstream writer receives the status 500, once, and no
  slice; its headers stay as they were; and the only call made on the transaction is
  \<open>ProcessResponseBody\<close>: the buffered body is not asked for.
\<close>

theorem body_phase_failure_forces_500:
  assumes "\<not> IsInterrupted eng (tx i)"
    and "IsResponseBodyAccessible eng (tx i)"
    and "IsResponseBodyProcessable eng (tx i)"
    and "snd (fst (ProcessResponseBody eng (tx i))) = Some err"
    and "\<not> isWriteHeaderFlush i"
  shows "fst (processResponse eng i) = Some err \<and>
         statuses (w (snd (processResponse eng i))) = statuses (w i) @ [500] \<and>
         Status_of (snd (processResponse eng i)) = 500 \<and>
         isWriteHeaderFlush (snd (processResponse eng i)) \<and>
         written (w (snd (processResponse eng i))) = written (w i) \<and>
         hdr (w (snd (processResponse eng i))) = hdr (w i) \<and>
         calls (tx (snd (processResponse eng i))) = calls (tx i) @ [CProcessResponseBody]"
  using assms
  by (cases "fst (ProcessResponseBody eng (tx i))")
     (auto simp: processResponse_def Let_def writer_defs Status_of_def
        StatusInternalServerError_def ProcessResponseBody_def invoke_def split: option.splits)

theorem body_phase_failure_forces_500_witness:
  "\<not> IsInterrupted (scripted failing) (tx (buffering failing)) \<and>
   IsResponseBodyAccessible (scripted failing) (tx (buffering failing)) \<and>
   IsResponseBodyProcessable (scripted failing) (tx (buffering failing)) \<and>
   snd (fst (ProcessResponseBody (scripted failing) (tx (buffering failing))))
     = Some (Error ''disk full'') \<and>
   \<not> isWriteHeaderFlush (buffering failing) \<and>
   buffered (est (tx (buffering failing))) = ''abc'' \<and>
   fst (processResponse (scripted failing) (buffering failing)) = Some (Error ''disk full'') \<and>
   statuses (w (snd (processResponse (scripted failing) (buffering failing)))) = [500] \<and>
   written (w (snd (processResponse (scripted failing) (buffering failing)))) = []"
proof -
  have h1: "\<not> IsInterrupted (scripted failing) (tx (buffering failing))"
    by (simp add: buffering_def failing_def call_defs sample_defs run_defs writer_defs)
  have h2: "IsResponseBodyAccessible (scripted failing) (tx (buffering failing))"
    by (simp add: buffering_def failing_def call_defs sample_defs run_defs writer_defs)
  have h3: "IsResponseBodyProcessable (scripted failing) (tx (buffering failing))"
    by (simp add: buffering_def failing_def call_defs sample_defs run_defs writer_defs)
  have h4: "snd (fst (ProcessResponseBody (scripted failing) (tx (buffering failing))))
              = Some (Error ''disk full'')"
    by (simp add: buffering_def failing_def call_defs sample_defs run_defs writer_defs)
  have h5: "\<not> isWriteHeaderFlush (buffering failing)"
    by (simp add: buffering_def failing_def call_defs sample_defs run_defs writer_defs)
  have h6: "buffered (est (tx (buffering failing))) = ''abc''"
    by (simp add: buffering_def failing_def call_defs sample_defs run_defs writer_defs)
  have h7: "statuses (w (buffering failing)) = [] \<and> written (w (buffering failing)) = []"
    by (simp add: buffering_def failing_def call_defs sample_defs run_defs writer_defs)
  from body_phase_failure_forces_500 [OF h1 h2 h3 h4 h5] h1 h2 h3 h4 h5 h6 h7
  show ?thesis by simp
qed

section \<open>Reset\<close>

text \<open>
  C9. After \<open>reset\<close>, whatever the instance held before: \<open>Written\<close> is false,
  \<open>Size\<close> is 0 while the size field holds the sentinel \<open>notWritten\<close>, the status is the
  default 200 with no header recorded (\<open>wroteHeader\<close> is false), the status line is not
  flushed, and the writer, the transaction and the protocol are the ones given. Every
  field of the struct is set, so two instances with different pasts are equal after it.
\<close>

theorem reset_gives_initial_state:
  "\<not> Written (reset t writer p inst) \<and>
   Size (reset t writer p inst) = 0 \<and>
   rsize (reset t writer p inst) = notWritten \<and>
   Status_of (reset t writer p inst) = StatusOK \<and>
   \<not> wroteHeader (reset t writer p inst) \<and>
   \<not> isWriteHeaderFlush (reset t writer p inst) \<and>
   w (reset t writer p inst) = writer \<and>
   tx (reset t writer p inst) = t \<and>
   proto (reset t writer p inst) = p \<and>
   reset t writer p inst = reset t writer p (inst'\<lparr>stdlog := stdlog inst\<rparr>)"
  by (simp add: reset_def Written_def Size_def Status_of_def notWritten_def)

section \<open>The flush offered to the handler\<close>

text \<open>
  C10, as the code has it. \<open>FlushError\<close> returns \<open>nil\<close> and hands no slice to the
  downstream writer. With a header recorded it changes nothing. With none recorded it is
  \<open>WriteHeader(200)\<close>: if the response-header phase gives no verdict, the downstream
  writer receives no status either; if it gives a verdict, the downstream writer receives
  the status resolved from the verdict, unless the status line was flushed before.
\<close>

theorem FlushError_effect:
  "fst (FlushError eng i) = None \<and>
   written (w (snd (FlushError eng i))) = written (w i) \<and>
   snd (FlushError eng i) = (if wroteHeader i then i else WriteHeader eng StatusOK i) \<and>
   statuses (w (snd (FlushError eng i))) =
     (case (if wroteHeader i then None
            else fst (ProcessResponseHeaders eng StatusOK (proto i)
                        (addResponseHeaders eng (hdr (w i)) (tx i)))) of
        None \<Rightarrow> statuses (w i)
      | Some it \<Rightarrow>
          (if isWriteHeaderFlush i then statuses (w i)
           else statuses (w i) @ [obtainStatusCodeFromInterruptionOrDefault it StatusOK]))"
  by (auto simp: FlushError_def WriteHeader_def Let_def writer_defs split: option.splits)

text \<open>
  The claim that \<open>FlushError\<close> never transmits the status line fails where its implicit
  \<open>WriteHeader(200)\<close> meets a verdict of the response-header phase: on a fresh
  interceptor the downstream writer, which had received no status, receives 403.
\<close>

theorem FlushError_transmits_verdict_status:
  "statuses (w (fresh denyHeaders)) = [] \<and>
   statuses (w (snd (FlushError (scripted denyHeaders) (fresh denyHeaders)))) = [403]"
  by (simp add: denyHeaders_def call_defs sample_defs run_defs writer_defs)

section \<open>A second header write\<close>



section \<open>The calls made on the transaction\<close>

lemma LastIndexByte_absent: "c \<notin> set s \<Longrightarrow> LastIndexByte s c = - 1"
  by (induction s) auto

lemma calls_invoke: "calls (snd (invoke c f t)) = calls t @ [c]"
  by (simp add: invoke_def)

lemma grows_refl: "grows t t"
  by (simp add: grows_def)

lemma grows_trans: "grows t t' \<Longrightarrow> grows t' t'' \<Longrightarrow> grows t t''"
  by (auto simp: grows_def)

lemma grows_invoke: "\<not> lifecycle c \<Longrightarrow> grows t (snd (invoke c f t))"
  by (simp add: grows_def invoke_def)

lemma grows_fold:
  assumes "\<And>x t. grows t (f x t)"
  shows "grows t (fold f xs t)"
proof (induction xs arbitrary: t)
  case Nil
  show ?case by (simp add: grows_refl)
next
  case (Cons x xs)
  show ?case using grows_trans [OF assms Cons.IH] by simp
qed

lemma grows_AddRequestHeader: "grows t (AddRequestHeader eng k v t)"
  by (simp add: AddRequestHeader_def grows_invoke lifecycle_def)

lemma grows_AddResponseHeader: "grows t (AddResponseHeader eng k v t)"
  by (simp add: AddResponseHeader_def grows_invoke lifecycle_def)

lemma grows_addRequestHeaders: "grows t (addRequestHeaders eng h t)"
  unfolding addRequestHeaders_def
  by (intro grows_fold grows_AddRequestHeader)

lemma grows_addResponseHeaders: "grows t (addResponseHeaders eng h t)"
  unfolding addResponseHeaders_def
  by (intro grows_fold grows_AddResponseHeader)

lemma grows_requestBody: "grows t (fst (snd (requestBody eng t req)))"
  by (auto simp: requestBody_def Let_def ReadRequestBodyFrom_def RequestBodyReader_def
        ProcessRequestBody_def grows_def invoke_def lifecycle_def
        split: body.splits prod.splits option.splits)


lemma grows_ProcessConnection: "grows t (ProcessConnection eng c p s q t)"
  by (simp add: ProcessConnection_def grows_invoke lifecycle_def)

lemma grows_ProcessURI: "grows t (ProcessURI eng u m v t)"
  by (simp add: ProcessURI_def grows_invoke lifecycle_def)

lemma grows_SetServerName: "grows t (SetServerName eng n t)"
  by (simp add: SetServerName_def grows_invoke lifecycle_def)

lemma grows_ProcessRequestHeaders: "grows t (snd (ProcessRequestHeaders eng t))"
  by (simp add: ProcessRequestHeaders_def grows_invoke lifecycle_def)

text \<open>
  The first call \<open>processRequest\<close> makes is \<open>ProcessConnection\<close>, with the client and
  port it computed from the remote address; none of the later ones ends the transaction.
\<close>

lemma processRequest_calls:
  "\<exists>ys. calls (fst (snd (processRequest eng t req)))
          = calls t @ CProcessConnection
              (if LastIndexByte (RemoteAddr req) CHR '':'' \<noteq> - 1
               then take (nat (LastIndexByte (RemoteAddr req) CHR '':'')) (RemoteAddr req) else [])
              (if LastIndexByte (RemoteAddr req) CHR '':'' \<noteq> - 1
               then fst (Atoi (drop (nat (LastIndexByte (RemoteAddr req) CHR '':'' + 1)) (RemoteAddr req)))
               else 0) [] 0 # ys
        \<and> filter lifecycle ys = []"
proof -
  define client where "client = (if LastIndexByte (RemoteAddr req) CHR '':'' \<noteq> - 1
               then take (nat (LastIndexByte (RemoteAddr req) CHR '':'')) (RemoteAddr req) else [])"
  define cport where "cport = (if LastIndexByte (RemoteAddr req) CHR '':'' \<noteq> - 1
               then fst (Atoi (drop (nat (LastIndexByte (RemoteAddr req) CHR '':'' + 1)) (RemoteAddr req)))
               else 0)"
  define t1 where "t1 = ProcessConnection eng client cport [] 0 t"
  define t2 where "t2 = ProcessURI eng (URL req) (Method req) (Proto req) t1"
  define t3 where "t3 = addRequestHeaders eng (Header req) t2"
  define t4 where "t4 = (if Host req \<noteq> []
                then SetServerName eng (Host req) (AddRequestHeader eng ''Host'' (Host req) t3)
                else t3)"
  define t5 where "t5 = (if TransferEncoding req \<noteq> []
                then AddRequestHeader eng ''Transfer-Encoding'' (hd (TransferEncoding req)) t4
                else t4)"
  define r where "r = ProcessRequestHeaders eng t5"
  have res: "processRequest eng t req =
      (case fst r of Some it \<Rightarrow> ((Some it, None), snd r, req) | None \<Rightarrow> requestBody eng (snd r) req)"
    unfolding processRequest_def Let_def client_def cport_def t1_def t2_def t3_def t4_def t5_def
      r_def
    by (rule refl)
  have c1: "calls t1 = calls t @ [CProcessConnection client cport [] 0]"
    by (simp add: t1_def ProcessConnection_def invoke_def)
  have g2: "grows t1 t2" by (simp add: t2_def grows_ProcessURI)
  have g3: "grows t2 t3" by (simp add: t3_def grows_addRequestHeaders)
  have g4: "grows t3 t4"
    by (auto simp: t4_def grows_refl intro: grows_trans [OF grows_AddRequestHeader grows_SetServerName])
  have g5: "grows t4 t5" by (simp add: t5_def grows_refl grows_AddRequestHeader)
  have g6: "grows t5 (snd r)" by (simp add: r_def grows_ProcessRequestHeaders)
  have g7: "grows (snd r) (fst (snd (processRequest eng t req)))"
    by (cases "fst r") (simp_all add: res grows_refl grows_requestBody)
  have "grows t1 (fst (snd (processRequest eng t req)))"
    using g2 g3 g4 g5 g6 g7 by (blast intro: grows_trans)
  then show ?thesis
    unfolding client_def [symmetric] cport_def [symmetric]
    by (auto simp: grows_def c1)
qed

text \<open>
  For a remote address without \<open>:\<close>, \<open>processRequest\<close> leaves both \<open>client\<close> and
  \<open>cport\<close> at their zero values, whatever the engine: the connection phase is evaluated
  with the empty string as the client and 0 as its port.
\<close>

lemma no_colon_passes_empty_client:
  assumes "CHR '':'' \<notin> set (RemoteAddr req)"
  shows "\<exists>rest. calls (fst (snd (processRequest eng t req)))
                 = calls t @ CProcessConnection [] 0 [] 0 # rest"
  using processRequest_calls [of eng t req] LastIndexByte_absent [OF assms]
  by auto

text \<open>
  C6. The remote address is \<open>192.0.2.7\<close>, a host with no port. The driver goes through
  all its phases and returns neither a verdict nor an error, but the connection phase is
  evaluated with \<open>ProcessConnection("", 0, "", 0)\<close>: the port is 0 and the host is
  dropped too; no call on the transaction passes the address. For the address
  \<open>2001:db8::1\<close>, an IPv6 host with no port, the last \<open>:\<close> is taken for the port
  separator: the client passed is \<open>2001:db8:\<close> and the port is 1.
\<close>

theorem no_port_separator_host_is_dropped:
  "CHR '':'' \<notin> set (RemoteAddr noPortRequest) \<and>
   fst (processRequest (scripted quiet) (session quiet) noPortRequest) = (None, None) \<and>
   calls (fst (snd (processRequest (scripted quiet) (session quiet) noPortRequest)))
     = [CProcessConnection [] 0 [] 0,
        CProcessURI ''/index.html'' ''GET'' ''HTTP/1.1'',
        CAddRequestHeader ''Accept'' ''*/*'',
        CAddRequestHeader ''Host'' ''example.org'',
        CSetServerName ''example.org'',
        CProcessRequestHeaders,
        CProcessRequestBody] \<and>
   CProcessConnection (RemoteAddr noPortRequest) 0 [] 0
     \<notin> set (calls (fst (snd (processRequest (scripted quiet) (session quiet) noPortRequest)))) \<and>
   fst (processRequest (scripted quiet) (session quiet) ipv6Request) = (None, None) \<and>
   hd (calls (fst (snd (processRequest (scripted quiet) (session quiet) ipv6Request))))
     = CProcessConnection ''2001:db8:'' 1 [] 0"
  by (simp add: noPortRequest_def ipv6Request_def sample_defs call_defs request_defs Let_def)

text \<open>With a port, the address is split at the last \<open>:\<close>.\<close>

lemma with_port_host_and_port_are_split:
  "hd (calls (fst (snd (processRequest (scripted quiet) (session quiet) sampleRequest))))
     = CProcessConnection ''192.0.2.7'' 5123 [] 0"
  by (simp add: sample_defs call_defs request_defs Let_def)

section \<open>Finalising the transaction\<close>

lemma grows_WriteHeader: "grows (tx i) (tx (WriteHeader eng code i))"
proof (cases "wroteHeader i")
  case True
  then show ?thesis by (simp add: WriteHeader_def grows_refl)
next
  case False
  have a: "grows (tx i) (addResponseHeaders eng (hdr (w i)) (tx i))"
    by (rule grows_addResponseHeaders)
  have b: "grows (addResponseHeaders eng (hdr (w i)) (tx i))
             (snd (ProcessResponseHeaders eng code (proto i)
                     (addResponseHeaders eng (hdr (w i)) (tx i))))"
    by (simp add: ProcessResponseHeaders_def grows_invoke lifecycle_def)
  have "tx (WriteHeader eng code i)
          = snd (ProcessResponseHeaders eng code (proto i)
                   (addResponseHeaders eng (hdr (w i)) (tx i)))"
    using False by (simp add: WriteHeader_def Let_def writer_defs split: option.splits)
  with grows_trans [OF a b] show ?thesis by simp
qed

lemma grows_Write: "grows (tx i) (tx (snd (Write eng b i)))"
proof (cases "IsInterrupted eng (tx i)")
  case True
  then show ?thesis by (simp add: Write_def grows_refl)
next
  case False
  define i1 where "i1 = (if \<not> wroteHeader i then WriteHeader eng StatusOK i else i)"
  have a: "grows (tx i) (tx i1)"
    by (simp add: i1_def grows_refl grows_WriteHeader)
  have b: "grows (tx i1) (tx (snd (Write eng b i)))"
    using False unfolding Write_def Let_def i1_def [symmetric]
    by (auto simp: writer_defs WriteResponseBody_def invoke_def grows_def lifecycle_def
             split: option.splits prod.splits)
  from grows_trans [OF a b] show ?thesis .
qed

lemma grows_FlushError: "grows (tx i) (tx (snd (FlushError eng i)))"
  by (simp add: FlushError_def grows_refl grows_WriteHeader)

lemma grows_handle: "grows (tx i) (tx (handle eng op i))"
  by (cases op) (simp_all add: grows_WriteHeader grows_Write grows_FlushError onHeader_def grows_refl)

lemma grows_run_handler: "grows (tx i) (tx (run_handler eng ops i))"
  unfolding run_handler_def
proof (induction ops arbitrary: i)
  case Nil
  show ?case by (simp add: grows_refl)
next
  case (Cons op ops)
  show ?case using grows_trans [OF grows_handle Cons.IH] by simp
qed

lemma grows_processResponse: "grows (tx i) (tx (snd (processResponse eng i)))"
  by (auto simp: processResponse_def Let_def writer_defs ProcessResponseBody_def
        ResponseBodyReader_def invoke_def grows_def lifecycle_def
        split: option.splits prod.splits)

lemma grows_processRequest: "grows t (fst (snd (processRequest eng t req)))"
  using processRequest_calls [of eng t req] by (auto simp: grows_def lifecycle_def)

lemma grows_serve: "grows t (xtx (serve eng next writer req inst t))"
proof (cases "IsRuleEngineOff eng t")
  case True
  then show ?thesis by (simp add: serve_def grows_refl)
next
  case False
  define r where "r = processRequest eng t req"
  have a: "grows t (fst (snd r))" by (simp add: r_def grows_processRequest)
  have b: "grows (fst (snd r)) (xtx (serve eng next writer req inst t))"
  proof -
    have "grows (tx (reset (fst (snd r)) writer (Proto (snd (snd r))) inst))
            (tx (snd (processResponse eng
                  (run_handler eng next (reset (fst (snd r)) writer (Proto (snd (snd r))) inst)))))"
      by (rule grows_trans [OF grows_run_handler grows_processResponse])
    then have c: "grows (fst (snd r))
            (tx (snd (processResponse eng
                  (run_handler eng next (reset (fst (snd r)) writer (Proto (snd (snd r))) inst)))))"
      by (simp add: reset_def)
    show ?thesis
      using False c unfolding serve_def Let_def r_def [symmetric]
      by (auto simp: grows_refl split: option.splits prod.splits)
  qed
  from grows_trans [OF a b] show ?thesis .
qed

lemma finish_calls: "calls (xtx (finish eng x)) = calls (xtx x) @ [CProcessLogging, CClose]"
  by (simp add: finish_def Let_def Close_def ProcessLogging_def invoke_def)

text \<open>
  C8. Whatever the engine, the handler, the writer, the request and the pooled instance
  are, and so on every path through the middleware, the calls made on the transaction end
  with \<open>ProcessLogging\<close> followed by \<open>Close\<close>, and neither is called anywhere before.
\<close>

theorem session_finalized_exactly_once:
  "filter lifecycle (calls (xtx (Intercept eng next writer req inst)))
     = [CProcessLogging, CClose] \<and>
   (\<exists>before. calls (xtx (Intercept eng next writer req inst))
              = before @ [CProcessLogging, CClose])"
proof -
  have "grows (NewTransaction eng req) (xtx (serve eng next writer req inst (NewTransaction eng req)))"
    by (rule grows_serve)
  then show ?thesis
    by (auto simp: Intercept_def finish_calls grows_def NewTransaction_def lifecycle_def)
qed

text \<open>
  The five exits, each on the scripted engine: the engine is off and the handler runs on
  the writer itself; the request-header phase denies; reading the request body fails; the
  response-body phase fails; nothing happens and the response goes through.
\<close>

theorem session_finalized_exactly_once_witness:
  "xhandled (Intercept (scripted engineOff) [HWrite ''hi''] blankWriter sampleRequest usedInstance) \<and>
   xpool (Intercept (scripted engineOff) [HWrite ''hi''] blankWriter sampleRequest usedInstance) = None \<and>
   filter lifecycle (calls (xtx
     (Intercept (scripted engineOff) [HWrite ''hi''] blankWriter sampleRequest usedInstance)))
     = [CProcessLogging, CClose] \<and>
   \<not> xhandled (Intercept (scripted denyRequest) [HWrite ''hi''] blankWriter sampleRequest usedInstance) \<and>
   statuses (xwriter
     (Intercept (scripted denyRequest) [HWrite ''hi''] blankWriter sampleRequest usedInstance)) = [403] \<and>
   filter lifecycle (calls (xtx
     (Intercept (scripted denyRequest) [HWrite ''hi''] blankWriter sampleRequest usedInstance)))
     = [CProcessLogging, CClose] \<and>
   xdebug (Intercept (scripted failRequest) [HWrite ''hi''] blankWriter postRequest usedInstance)
     = [''Failed to process request''] \<and>
   filter lifecycle (calls (xtx
     (Intercept (scripted failRequest) [HWrite ''hi''] blankWriter postRequest usedInstance)))
     = [CProcessLogging, CClose] \<and>
   xdebug (Intercept (scripted failing) [HWrite ''hi''] blankWriter sampleRequest usedInstance)
     = [''Failed to close the response''] \<and>
   filter lifecycle (calls (xtx
     (Intercept (scripted failing) [HWrite ''hi''] blankWriter sampleRequest usedInstance)))
     = [CProcessLogging, CClose] \<and>
   xdebug (Intercept (scripted quiet) [HWrite ''hi''] blankWriter sampleRequest usedInstance) = [] \<and>
   written (xwriter
     (Intercept (scripted quiet) [HWrite ''hi''] blankWriter sampleRequest usedInstance)) = [''hi''] \<and>
   filter lifecycle (calls (xtx
     (Intercept (scripted quiet) [HWrite ''hi''] blankWriter sampleRequest usedInstance)))
     = [CProcessLogging, CClose]"
proof -
  have off: "xhandled (Intercept (scripted engineOff) [HWrite ''hi''] blankWriter sampleRequest usedInstance) \<and>
     xpool (Intercept (scripted engineOff) [HWrite ''hi''] blankWriter sampleRequest usedInstance) = None"
    by (simp add: engineOff_def entry_defs sample_defs call_defs Let_def)
  have blk: "\<not> xhandled (Intercept (scripted denyRequest) [HWrite ''hi''] blankWriter sampleRequest usedInstance) \<and>
     statuses (xwriter
       (Intercept (scripted denyRequest) [HWrite ''hi''] blankWriter sampleRequest usedInstance)) = [403]"
    by (simp add: denyRequest_def entry_defs sample_defs call_defs request_defs run_defs
          writer_defs)
  have rqf: "xdebug (Intercept (scripted failRequest) [HWrite ''hi''] blankWriter postRequest usedInstance)
     = [''Failed to process request'']"
    by (simp add: failRequest_def postRequest_def entry_defs sample_defs call_defs request_defs run_defs
          writer_defs)
  have rsf: "xdebug (Intercept (scripted failing) [HWrite ''hi''] blankWriter sampleRequest usedInstance)
     = [''Failed to close the response'']"
    by (simp add: failing_def entry_defs sample_defs call_defs request_defs run_defs
          writer_defs)
  have nrm: "xdebug (Intercept (scripted quiet) [HWrite ''hi''] blankWriter sampleRequest usedInstance) = [] \<and>
     written (xwriter
       (Intercept (scripted quiet) [HWrite ''hi''] blankWriter sampleRequest usedInstance)) = [''hi'']"
    by (simp add: entry_defs sample_defs call_defs request_defs run_defs
          writer_defs)
  from off blk rqf rsf nrm
    session_finalized_exactly_once [of "scripted engineOff" "[HWrite ''hi'']" blankWriter sampleRequest usedInstance]
    session_finalized_exactly_once [of "scripted denyRequest" "[HWrite ''hi'']" blankWriter sampleRequest usedInstance]
    session_finalized_exactly_once [of "scripted failRequest" "[HWrite ''hi'']" blankWriter postRequest usedInstance]
    session_finalized_exactly_once [of "scripted failing" "[HWrite ''hi'']" blankWriter sampleRequest usedInstance]
    session_finalized_exactly_once [of "scripted quiet" "[HWrite ''hi'']" blankWriter sampleRequest usedInstance]
  show ?thesis by simp
qed

section \<open>A verdict on a buffered response body\<close>

lemma canon_Content_Length: "CanonicalMIMEHeaderKey ''Content-Length'' = ''Content-Length''"
  by (simp add: header_defs)

text \<open>\<open>cleanHeaders\<close> empties a header map all of whose keys are canonical.\<close>

lemma cleanLoop_canonical:
  "list_all canonical ks \<Longrightarrow> set (headerKeys h) \<subseteq> set ks \<Longrightarrow> cleanLoop ks h = []"
proof (induction ks arbitrary: h)
  case Nil
  then show ?case by (simp add: headerKeys_def)
next
  case (Cons k ks)
  have ck: "CanonicalMIMEHeaderKey k = k" using Cons.prems(1) by (simp add: canonical_def)
  have rest: "list_all canonical ks" using Cons.prems(1) by simp
  show ?case
  proof (cases "k \<in> set (headerKeys h)")
    case True
    have "set (headerKeys (headerDel k h)) \<subseteq> set ks"
      using Cons.prems(2) by (auto simp: headerDel_def headerDelete_def headerKeys_def ck)
    from Cons.IH [OF rest this] True show ?thesis by simp
  next
    case False
    have "set (headerKeys h) \<subseteq> set ks" using Cons.prems(2) False by auto
    from Cons.IH [OF rest this] False show ?thesis by simp
  qed
qed

lemma cleanHeaders_canonical:
  "list_all canonical (headerKeys (hdr (w i))) \<Longrightarrow> hdr (w (cleanHeaders i)) = []"
  by (simp add: cleanHeaders_def cleanLoop_canonical)

text \<open>While the status line is deferred, nothing has reached the downstream writer.\<close>

lemma deferred_WriteHeader: "deferred base i \<Longrightarrow> deferred base (WriteHeader eng code i)"
  by (auto simp: deferred_def WriteHeader_def Let_def writer_defs split: option.splits)

lemma deferred_Write: "deferred base i \<Longrightarrow> deferred base (snd (Write eng b i))"
  by (auto simp: deferred_def Write_def WriteHeader_def Let_def writer_defs
           split: option.splits prod.splits)

lemma deferred_handle: "deferred base i \<Longrightarrow> deferred base (handle eng op i)"
  by (cases op)
     (auto simp: deferred_WriteHeader deferred_Write FlushError_def, auto simp: deferred_def onHeader_def)

lemma deferred_run_handler: "deferred base i \<Longrightarrow> deferred base (run_handler eng ops i)"
  unfolding run_handler_def by (induction ops arbitrary: i) (simp_all add: deferred_handle)

lemma not_flushed_nothing_sent:
  assumes "\<not> isWriteHeaderFlush (run_handler eng ops (reset t writer p inst))"
  shows "statuses (w (run_handler eng ops (reset t writer p inst))) = statuses writer \<and>
         written (w (run_handler eng ops (reset t writer p inst))) = written writer"
proof -
  have "deferred writer (reset t writer p inst)"
    by (simp add: deferred_def reset_def)
  from deferred_run_handler [OF this, of eng ops] assms show ?thesis
    by (simp add: deferred_def)
qed

text \<open>
  A verdict of the response-body phase, from \<open>ProcessResponseBody\<close> in the driver or
  from \<open>WriteResponseBody\<close> in \<open>Write\<close>, while the status line is deferred and every
  staged header key is canonical: the downstream writer receives the resolved status, once,
  its header map is \<open>Content-Length: 0\<close> alone, and it receives no slice.
\<close>

lemma body_verdict_with_canonical_keys:
  assumes "\<not> IsInterrupted eng (tx i)"
    and "IsResponseBodyAccessible eng (tx i)"
    and "IsResponseBodyProcessable eng (tx i)"
    and "fst (ProcessResponseBody eng (tx i)) = (Some it, None)"
    and "\<not> isWriteHeaderFlush i"
    and "list_all canonical (headerKeys (hdr (w i)))"
  shows "fst (processResponse eng i) = None \<and>
         statuses (w (snd (processResponse eng i)))
           = statuses (w i) @ [obtainStatusCodeFromInterruptionOrDefault it (statusCode i)] \<and>
         hdr (w (snd (processResponse eng i))) = [(''Content-Length'', [''0''])] \<and>
         written (w (snd (processResponse eng i))) = written (w i)"
proof -
  have h: "hdr (w (cleanHeaders (i\<lparr>tx := snd (ProcessResponseBody eng (tx i))\<rparr>))) = []"
    using assms(6) by (simp add: cleanHeaders_def cleanLoop_canonical)
  show ?thesis
    using assms(1-5) h
    by (simp add: processResponse_def Let_def HeaderSet_def overrideWriteHeader_def
          flushWriteHeader_def downWriteHeader_def headerSet_def headerAssign_def headerKeys_def
          canon_Content_Length cleanHeaders_def)
qed

lemma write_verdict_with_canonical_keys:
  assumes "\<not> IsInterrupted eng (tx i)"
    and "wroteHeader i"
    and "IsResponseBodyAccessible eng (tx i)"
    and "IsResponseBodyProcessable eng (tx i)"
    and "fst (fst (WriteResponseBody eng b (tx i))) = Some it"
    and "\<not> isWriteHeaderFlush i"
    and "list_all canonical (headerKeys (hdr (w i)))"
  shows "fst (Write eng b i) = (0, None) \<and>
         statuses (w (snd (Write eng b i)))
           = statuses (w i) @ [obtainStatusCodeFromInterruptionOrDefault it (statusCode i)] \<and>
         hdr (w (snd (Write eng b i))) = [(''Content-Length'', [''0''])] \<and>
         written (w (snd (Write eng b i))) = written (w i)"
proof -
  have h: "hdr (w (cleanHeaders (i\<lparr>tx := snd (WriteResponseBody eng b (tx i))\<rparr>))) = []"
    using assms(7) by (simp add: cleanHeaders_def cleanLoop_canonical)
  obtain n err where r: "fst (WriteResponseBody eng b (tx i)) = (Some it, n, err)"
    using assms(5) by (cases "fst (WriteResponseBody eng b (tx i))") auto
  show ?thesis
    using assms(1-4,6) h r
    by (simp add: Write_def Let_def HeaderSet_def overrideWriteHeader_def
          flushWriteHeader_def downWriteHeader_def headerSet_def headerAssign_def headerKeys_def
          canon_Content_Length cleanHeaders_def)
qed

text \<open>
  C3. The handler stores the header \<open>x-trace\<close> by assignment to the header map, sets a
  content type and writes three bytes, which go to the transaction's buffer; the
  response-body phase then denies. The downstream writer receives the status 403, once, and
  no slice, as the claim says. Its header map is not \<open>Content-Length: 0\<close> alone:
  \<open>cleanHeaders\<close> calls \<open>Del("x-trace")\<close>, which deletes the entry \<open>X-Trace\<close>, and
  the entry \<open>x-trace\<close> stays.
\<close>

theorem body_verdict_keeps_raw_header_key:
  "buffered (est (tx rawKeyRun)) = ''abc'' \<and>
   statuses (w rawKeyRun) = [] \<and>
   written (w rawKeyRun) = [] \<and>
   hdr (w rawKeyRun) = [(''x-trace'', [''1'']), (''Content-Type'', [''text/html''])] \<and>
   fst (processResponse (scripted denyBody) rawKeyRun) = None \<and>
   statuses (w (snd (processResponse (scripted denyBody) rawKeyRun))) = [403] \<and>
   written (w (snd (processResponse (scripted denyBody) rawKeyRun))) = [] \<and>
   hdr (w (snd (processResponse (scripted denyBody) rawKeyRun)))
     = [(''x-trace'', [''1'']), (''Content-Length'', [''0''])]"
  by (simp add: rawKeyRun_def denyBody_def sample_defs call_defs run_defs writer_defs
        header_defs)

end
